theory Spec2Isabelle
  imports Main
begin

section \<open>Christa's Closet client script (static/script.js)\<close>

text \<open>
  The script is glue over browser interfaces. The model keeps the script's own control
  flow and gives each browser interface it calls the meaning the ECMAScript and DOM
  standards give it:
  \<^item> a JavaScript number that may be \<open>NaN\<close> is an \<open>int option\<close> (\<open>None\<close> is \<open>NaN\<close>);
    the numbers of the script are integers (milliseconds, hours, minutes, day numbers);
  \<^item> a \<open>Date\<close> object is its time value, milliseconds since the epoch in UTC, again an
    \<open>int option\<close> (\<open>None\<close> is the invalid date);
  \<^item> a string is a list of 8-bit characters;
  \<^item> what the script does to the outside (timers, notifications, sharing, alerts,
    console output) is returned as a list of effects, in the order it happens.
\<close>

subsection \<open>Strings: \<open>split\<close>, \<open>trim\<close>, \<open>parseInt\<close>\<close>

text \<open>\<open>s.split(sep)\<close> for a one-character separator: the pieces between separators,
  empty pieces kept; the empty string gives one empty piece.\<close>

fun split :: "char \<Rightarrow> string \<Rightarrow> string list" where
  "split sep [] = [[]]"
| "split sep (c # cs) =
     (if c = sep then [] # split sep cs
      else (case split sep cs of
              [] \<Rightarrow> [[c]]
            | p # ps \<Rightarrow> (c # p) # ps))"

text \<open>White space and line terminators of ECMAScript among the 8-bit characters:
  TAB, LF, VT, FF, CR, SP and NBSP.\<close>

definition is_space :: "char \<Rightarrow> bool" where
  "is_space c \<longleftrightarrow>
     c \<in> set [CHR 0x09, CHR 0x0A, CHR 0x0B, CHR 0x0C, CHR 0x0D, CHR 0x20, CHR 0xA0]"

definition trim_start :: "string \<Rightarrow> string" where
  "trim_start s = dropWhile is_space s"

definition trim :: "string \<Rightarrow> string" where
  "trim s = rev (dropWhile is_space (rev (dropWhile is_space s)))"

definition is_digit :: "char \<Rightarrow> bool" where
  "is_digit c \<longleftrightarrow> c \<in> set ''0123456789''"

definition digit_val :: "char \<Rightarrow> int" where
  "digit_val c = int (of_char c) - 48"

text \<open>\<open>parseInt(s, 10)\<close>: leading white space is skipped, one sign is read, then the
  longest run of decimal digits; no digit at all gives \<open>NaN\<close>. What follows the digits is
  ignored.\<close>

definition parseInt :: "string \<Rightarrow> int option" where
  "parseInt inputString =
     (let S = trim_start inputString;
          sign = (if S \<noteq> [] \<and> hd S = CHR ''-'' then - 1 else 1 :: int);
          S = (if S \<noteq> [] \<and> (hd S = CHR ''+'' \<or> hd S = CHR ''-'') then tl S else S);
          Z = takeWhile is_digit S
      in if Z = [] then None
         else Some (sign * foldl (\<lambda>n c. n * 10 + digit_val c) 0 Z))"

text \<open>\<open>parts[i]\<close> of an array of strings, passed to \<open>parseInt\<close>: out of range it is
  \<open>undefined\<close>, which \<open>parseInt\<close> converts to the string \<open>undefined\<close>.\<close>

definition index_str :: "string list \<Rightarrow> nat \<Rightarrow> string" where
  "index_str parts i = (if i < length parts then parts ! i else ''undefined'')"

subsection \<open>Numbers that may be NaN\<close>

definition num_add :: "int option \<Rightarrow> int option \<Rightarrow> int option" where
  "num_add a b = (case (a, b) of (Some x, Some y) \<Rightarrow> Some (x + y) | _ \<Rightarrow> None)"

definition num_sub :: "int option \<Rightarrow> int option \<Rightarrow> int option" where
  "num_sub a b = (case (a, b) of (Some x, Some y) \<Rightarrow> Some (x - y) | _ \<Rightarrow> None)"

text \<open>\<open>a <= b\<close>: false as soon as one side is \<open>NaN\<close>.\<close>

definition num_le :: "int option \<Rightarrow> int option \<Rightarrow> bool" where
  "num_le a b = (case (a, b) of (Some x, Some y) \<Rightarrow> x \<le> y | _ \<Rightarrow> False)"

subsection \<open>Dates: the time arithmetic of ECMAScript\<close>

text \<open>
  The abstract operations of the standard's section on Date objects, over the integers.
  Local time follows the rules of the host's time zone, which change the offset from UTC
  at their transitions (daylight saving time), and a time value outside the range of
  \<open>Date\<close> is clipped to \<open>NaN\<close>.
\<close>

definition msPerSecond :: int where "msPerSecond = 1000"
definition msPerMinute :: int where "msPerMinute = 60000"
definition msPerHour :: int where "msPerHour = 3600000"
definition msPerDay :: int where "msPerDay = 86400000"

definition Day :: "int \<Rightarrow> int" where
  "Day t = t div msPerDay"

definition TimeWithinDay :: "int \<Rightarrow> int" where
  "TimeWithinDay t = t mod msPerDay"

definition DaysInYear :: "int \<Rightarrow> int" where
  "DaysInYear y =
     (if y mod 4 \<noteq> 0 then 365
      else if y mod 100 \<noteq> 0 then 366
      else if y mod 400 \<noteq> 0 then 365
      else 366)"

definition DayFromYear :: "int \<Rightarrow> int" where
  "DayFromYear y =
     365 * (y - 1970) + (y - 1969) div 4 - (y - 1901) div 100 + (y - 1601) div 400"

text \<open>Every year has at least 364 days: what the search below needs to terminate.\<close>

lemma div_succ_le: "(0::int) < k \<Longrightarrow> (a + 1) div k \<le> a div k + 1"
proof -
  assume k: "0 < k"
  then have "(a + 1) div k \<le> (a + k) div k"
    by (intro zdiv_mono1) simp_all
  also have "\<dots> = a div k + 1"
    by (rule div_add_self2) (use k in simp)
  finally show ?thesis .
qed

lemma year_arith:
  fixes y a a' b b' c c' :: int
  shows "a \<le> a' \<Longrightarrow> b' \<le> b + 1 \<Longrightarrow> c \<le> c' \<Longrightarrow>
    365 * (y - 1970) + a - b + c + 364 \<le> 365 * (y + 1 - 1970) + a' - b' + c'"
  by simp

lemma DayFromYear_step: "DayFromYear y + 364 \<le> DayFromYear (y + 1)"
proof -
  have a: "(y - 1969) div 4 \<le> (y + 1 - 1969) div 4"
    by (rule zdiv_mono1) simp_all
  have "(y - 1901 + 1) div 100 \<le> (y - 1901) div 100 + 1"
    by (rule div_succ_le) simp
  then have b: "(y + 1 - 1901) div 100 \<le> (y - 1901) div 100 + 1"
    by (simp add: algebra_simps)
  have c: "(y - 1601) div 400 \<le> (y + 1 - 1601) div 400"
    by (rule zdiv_mono1) simp_all
  show ?thesis
    unfolding DayFromYear_def by (rule year_arith [OF a b c])
qed

text \<open>The largest year whose first day is not after day \<open>d\<close>, searched upwards from
  the year \<open>y\<close>.\<close>

function year_from :: "int \<Rightarrow> int \<Rightarrow> int" where
  "year_from d y = (if DayFromYear (y + 1) \<le> d then year_from d (y + 1) else y)"
  by pat_completeness auto
termination
proof (relation "measure (\<lambda>(d, y). nat (d - DayFromYear (y + 1) + 1))")
  show "wf (measure (\<lambda>(d, y). nat (d - DayFromYear (y + 1) + 1)))"
    by simp
next
  fix d y :: int
  assume "DayFromYear (y + 1) \<le> d"
  moreover have "DayFromYear (y + 1) + 364 \<le> DayFromYear (y + 1 + 1)"
    by (rule DayFromYear_step)
  ultimately show "((d, y + 1), (d, y)) \<in> measure (\<lambda>(d, y). nat (d - DayFromYear (y + 1) + 1))"
    by simp
qed

declare year_from.simps [simp del]

text \<open>\<open>YearFromTime\<close>: the search starts at a year that is not after the year of \<open>t\<close>
  (no year has more than 366 days, none fewer than 365).\<close>

definition YearFromTime :: "int \<Rightarrow> int" where
  "YearFromTime t =
     (let d = Day t
      in year_from d (1970 + (if 0 \<le> d then d div 366 else d div 365)))"

definition InLeapYear :: "int \<Rightarrow> int" where
  "InLeapYear t = (if DaysInYear (YearFromTime t) = 366 then 1 else 0)"

definition DayWithinYear :: "int \<Rightarrow> int" where
  "DayWithinYear t = Day t - DayFromYear (YearFromTime t)"

text \<open>The number of days of a year before its month \<open>m\<close> (0 is January), \<open>leap\<close> being
  1 in a leap year and 0 otherwise.\<close>

definition DaysBeforeMonth :: "int \<Rightarrow> int \<Rightarrow> int" where
  "DaysBeforeMonth m leap =
     (if m = 0 then 0
      else if m = 1 then 31
      else if m = 2 then 59 + leap
      else if m = 3 then 90 + leap
      else if m = 4 then 120 + leap
      else if m = 5 then 151 + leap
      else if m = 6 then 181 + leap
      else if m = 7 then 212 + leap
      else if m = 8 then 243 + leap
      else if m = 9 then 273 + leap
      else if m = 10 then 304 + leap
      else 334 + leap)"

definition MonthFromTime :: "int \<Rightarrow> int" where
  "MonthFromTime t =
     (let dwy = DayWithinYear t; leap = InLeapYear t
      in if dwy < 31 then 0
         else if dwy < 59 + leap then 1
         else if dwy < 90 + leap then 2
         else if dwy < 120 + leap then 3
         else if dwy < 151 + leap then 4
         else if dwy < 181 + leap then 5
         else if dwy < 212 + leap then 6
         else if dwy < 243 + leap then 7
         else if dwy < 273 + leap then 8
         else if dwy < 304 + leap then 9
         else if dwy < 334 + leap then 10
         else 11)"

definition DateFromTime :: "int \<Rightarrow> int" where
  "DateFromTime t =
     DayWithinYear t - DaysBeforeMonth (MonthFromTime t) (InLeapYear t) + 1"

definition MakeTime :: "int option \<Rightarrow> int option \<Rightarrow> int option \<Rightarrow> int option \<Rightarrow> int option" where
  "MakeTime hour minute sec ms =
     (case (hour, minute, sec, ms) of
        (Some h, Some m, Some s, Some milli) \<Rightarrow>
          Some (h * msPerHour + m * msPerMinute + s * msPerSecond + milli)
      | _ \<Rightarrow> None)"

text \<open>\<open>MakeDay\<close>: the day number of the first day of the month, plus \<open>date - 1\<close>;
  months beyond a year carry into the year.\<close>

definition MakeDay :: "int \<Rightarrow> int \<Rightarrow> int option \<Rightarrow> int option" where
  "MakeDay year month date =
     (case date of
        None \<Rightarrow> None
      | Some dt \<Rightarrow>
          (let ym = year + month div 12;
               mn = month mod 12;
               leap = (if DaysInYear ym = 366 then 1 else 0)
           in Some (DayFromYear ym + DaysBeforeMonth mn leap + dt - 1)))"

definition MakeDate :: "int option \<Rightarrow> int option \<Rightarrow> int option" where
  "MakeDate day time =
     (case (day, time) of
        (Some d, Some tm) \<Rightarrow> Some (d * msPerDay + tm)
      | _ \<Rightarrow> None)"

text \<open>
  The time zone of the host: the offset from UTC (milliseconds) in force before its first
  transition, and its transitions in ascending order, each with the instant (a UTC time
  value) at which it happens and the offset in force from then on.
\<close>

record zone =
  base :: int
  transitions :: "(int \<times> int) list"

text \<open>The offset in force at the instant \<open>t\<close>, \<open>cur\<close> being the offset before the
  transitions \<open>ts\<close>.\<close>

fun offset_at :: "int \<Rightarrow> (int \<times> int) list \<Rightarrow> int \<Rightarrow> int" where
  "offset_at cur [] t = cur"
| "offset_at cur ((s, off) # ts) t = (if t < s then cur else offset_at off ts t)"

text \<open>
  The offset with which the local time \<open>lt\<close> is read. A transition at \<open>s\<close> from the
  offset \<open>cur\<close> to a smaller offset \<open>off\<close> repeats the local times from \<open>s + off\<close> up to
  \<open>s + cur\<close>; one to a larger offset skips the local times from \<open>s + cur\<close> up to
  \<open>s + off\<close>. In both cases the standard reads such a local time with the offset before
  the transition.
\<close>

fun offset_for :: "int \<Rightarrow> (int \<times> int) list \<Rightarrow> int \<Rightarrow> int" where
  "offset_for cur [] lt = cur"
| "offset_for cur ((s, off) # ts) lt =
     (if lt < s + max cur off then cur else offset_for off ts lt)"

text \<open>\<open>LocalTZA(t, isUTC)\<close>: \<open>t\<close> is a UTC time value when \<open>isUTC\<close> is true and a local
  time otherwise.\<close>

definition LocalTZA :: "zone \<Rightarrow> int \<Rightarrow> bool \<Rightarrow> int" where
  "LocalTZA z t isUTC =
     (if isUTC then offset_at (base z) (transitions z) t
      else offset_for (base z) (transitions z) t)"

definition LocalTime :: "zone \<Rightarrow> int \<Rightarrow> int" where
  "LocalTime z t = t + LocalTZA z t True"

definition UTC :: "zone \<Rightarrow> int \<Rightarrow> int" where
  "UTC z t = t - LocalTZA z t False"

definition TimeClip :: "int \<Rightarrow> int option" where
  "TimeClip t = (if 8640000000000000 < abs t then None else Some t)"

subsection \<open>The methods of \<open>Date\<close> the script calls\<close>

definition getTime :: "int option \<Rightarrow> int option" where
  "getTime tv = tv"

definition getDate :: "zone \<Rightarrow> int option \<Rightarrow> int option" where
  "getDate z tv = (case tv of None \<Rightarrow> None | Some t \<Rightarrow> Some (DateFromTime (LocalTime z t)))"

definition setHours ::
  "zone \<Rightarrow> int option \<Rightarrow> int option \<Rightarrow> int option \<Rightarrow> int option \<Rightarrow> int option \<Rightarrow> int option" where
  "setHours z tv hour minute sec ms =
     (case tv of
        None \<Rightarrow> None
      | Some t0 \<Rightarrow>
          (let t = LocalTime z t0;
               date = MakeDate (Some (Day t)) (MakeTime hour minute sec ms)
           in case date of
                None \<Rightarrow> None
              | Some d \<Rightarrow> TimeClip (UTC z d)))"

definition setDate :: "zone \<Rightarrow> int option \<Rightarrow> int option \<Rightarrow> int option" where
  "setDate z tv date =
     (case tv of
        None \<Rightarrow> None
      | Some t0 \<Rightarrow>
          (let t = LocalTime z t0;
               newDate = MakeDate (MakeDay (YearFromTime t) (MonthFromTime t) date)
                                  (Some (TimeWithinDay t))
           in case newDate of
                None \<Rightarrow> None
              | Some d \<Rightarrow> TimeClip (UTC z d)))"

subsection \<open>\<open>scheduleNotificationAt\<close>\<close>

text \<open>
  One run of the inner function \<open>schedule\<close>, up to the call of \<open>setTimeout\<close>: the
  target it computes and the delay it passes. \<open>z\<close> is the host's time zone and \<open>clock\<close>
  the reading of the system clock; \<open>now\<close> and \<open>target\<close> are built by two consecutive
  \<open>new Date()\<close> and start from the same reading.
\<close>

record armed =
  target :: "int option"
  timeout :: "int option"

definition schedule :: "zone \<Rightarrow> string \<Rightarrow> int \<Rightarrow> armed" where
  "schedule z timeStr clock =
     (let now = Some clock;
          target = Some clock;
          parts = split CHR '':'' timeStr;
          hours = parseInt (index_str parts 0);
          minutes = parseInt (index_str parts 1);
          target = setHours z target hours minutes (Some 0) (Some 0);
          target = (if num_le target now
                    then setDate z target (num_add (getDate z target) (Some 1))
                    else target)
      in \<lparr>target = target, timeout = num_sub (getTime target) (getTime now)\<rparr>)"

subsection \<open>Effects\<close>

text \<open>What the script does to the outside, one constructor for each call it makes.\<close>

datatype effect =
    SetTimeout "int option"
  | ShowNotification string string
  | RequestPermission
  | NavigatorShare string string string
  | ClipboardWriteText string
  | Alert string
  | ConsoleError string string
  | UnhandledRejection string

text \<open>How a promise of the browser settles; a rejection carries its reason.\<close>

datatype outcome = Fulfilled | Rejected string

text \<open>
  \<open>scheduleNotificationAt\<close>: \<open>schedule\<close> arms a timer; when the timer fires, the
  callback shows the notification and calls \<open>schedule\<close> again, without end. \<open>clock\<close>
  is the clock reading at the first run of \<open>schedule\<close>, \<open>later\<close> the readings at the
  runs that follow (one for each firing of the timer that is observed), and the result is
  the sequence of effects up to the last of them.
\<close>

fun scheduleNotificationAt :: "zone \<Rightarrow> string \<Rightarrow> int \<Rightarrow> int list \<Rightarrow> effect list" where
  "scheduleNotificationAt z timeStr clock [] =
     [SetTimeout (timeout (schedule z timeStr clock))]"
| "scheduleNotificationAt z timeStr clock (c # later) =
     SetTimeout (timeout (schedule z timeStr clock))
     # ShowNotification ''Rise & shine, Christa! Ready to glow today?''
                        ''Tap to open Christa's Closet for your outfit.''
     # scheduleNotificationAt z timeStr c later"

subsection \<open>\<open>setupNotifications\<close>\<close>

text \<open>
  The page as \<open>setupNotifications\<close> sees it:
  \<^item> \<open>Notification\<close>: \<open>None\<close> when \<open>window\<close> has no \<open>Notification\<close>, otherwise the
    permission string that \<open>Notification.requestPermission()\<close> resolves with;
  \<^item> \<open>notification_time\<close>: \<open>localStorage.getItem('notification_time')\<close>, \<open>None\<close> for
    \<open>null\<close>;
  \<^item> \<open>DEFAULT_NOTIFICATION_TIME\<close>: the global of that name, a string the page sets,
    \<open>None\<close> when it is \<open>undefined\<close>;
  \<^item> \<open>timeZone\<close>: the time zone of the host.
\<close>

record window =
  Notification :: "string option"
  notification_time :: "string option"
  DEFAULT_NOTIFICATION_TIME :: "string option"
  timeZone :: zone

text \<open>\<open>a || b\<close> on strings that may be \<open>null\<close> or \<open>undefined\<close>: \<open>a\<close> unless it is
  falsy, and the falsy values here are \<open>null\<close>, \<open>undefined\<close> and the empty string.\<close>

definition truthy :: "string option \<Rightarrow> bool" where
  "truthy v = (case v of None \<Rightarrow> False | Some s \<Rightarrow> s \<noteq> [])"

definition js_or :: "string option \<Rightarrow> string option \<Rightarrow> string option" where
  "js_or a b = (if truthy a then a else b)"

definition js_or_str :: "string option \<Rightarrow> string \<Rightarrow> string" where
  "js_or_str a b = (case a of None \<Rightarrow> b | Some s \<Rightarrow> if s \<noteq> [] then s else b)"

text \<open>The three lines of \<open>setupNotifications\<close> that choose the time string, from the
  stored value and the global default.\<close>

definition resolveTimeStr :: "string option \<Rightarrow> string option \<Rightarrow> string" where
  "resolveTimeStr stored dflt =
     (let defaultTime = (case dflt of Some d \<Rightarrow> Some d | None \<Rightarrow> Some ''08:00'')
      in js_or_str (js_or stored defaultTime) ''08:00'')"

definition setupNotifications :: "window \<Rightarrow> int \<Rightarrow> int list \<Rightarrow> effect list" where
  "setupNotifications w clock later =
     (case Notification w of
        None \<Rightarrow> []
      | Some permission \<Rightarrow>
          RequestPermission #
          (if permission \<noteq> ''granted'' then []
           else scheduleNotificationAt (timeZone w)
                  (resolveTimeStr (notification_time w) (DEFAULT_NOTIFICATION_TIME w))
                  clock later))"

text \<open>The listener that the page-load handler puts on the settings input \<open>nt\<close>: a
  change of the input stores its value, whatever it is; a cleared time input has the
  empty string as its value.\<close>

definition nt_change :: "window \<Rightarrow> string \<Rightarrow> window" where
  "nt_change w v = w\<lparr>notification_time := Some v\<rparr>"

subsection \<open>The document\<close>

text \<open>A node of the document: a text node, or an element with its tag name (lower
  case, as the DOM has it for HTML), its \<open>id\<close>, its classes and its children in order.\<close>

datatype node =
    Text string
  | Element string "string option" "string list" "node list"

text \<open>A node and its descendants, in document order.\<close>

fun nodes :: "node \<Rightarrow> node list" where
  "nodes (Text s) = [Text s]"
| "nodes (Element tg i cls ch) = Element tg i cls ch # concat (map nodes ch)"

definition descendants :: "node \<Rightarrow> node list" where
  "descendants n = (case n of Text s \<Rightarrow> [] | Element tg i cls ch \<Rightarrow> concat (map nodes ch))"

fun textContent :: "node \<Rightarrow> string" where
  "textContent (Text s) = s"
| "textContent (Element tg i cls ch) = concat (map textContent ch)"

definition has_id :: "string \<Rightarrow> node \<Rightarrow> bool" where
  "has_id x n = (case n of Text s \<Rightarrow> False | Element tg i cls ch \<Rightarrow> i = Some x)"

definition has_class :: "string \<Rightarrow> node \<Rightarrow> bool" where
  "has_class c n = (case n of Text s \<Rightarrow> False | Element tg i cls ch \<Rightarrow> c \<in> set cls)"

definition has_tag :: "string \<Rightarrow> node \<Rightarrow> bool" where
  "has_tag t n = (case n of Text s \<Rightarrow> False | Element tg i cls ch \<Rightarrow> tg = t)"

text \<open>\<open>document.getElementById(x)\<close> and \<open>document.querySelector('.c')\<close>: the first
  element of the document, in document order, with that id or class. The document is
  given by its root element.\<close>

definition getElementById :: "node \<Rightarrow> string \<Rightarrow> node option" where
  "getElementById document x = find (has_id x) (nodes document)"

definition querySelector_class :: "node \<Rightarrow> string \<Rightarrow> node option" where
  "querySelector_class document c = find (has_class c) (nodes document)"

text \<open>\<open>e.querySelectorAll('t')\<close>: the descendants of \<open>e\<close> with tag \<open>t\<close>, in document
  order.\<close>

definition querySelectorAll_tag :: "node \<Rightarrow> string \<Rightarrow> node list" where
  "querySelectorAll_tag e t = filter (has_tag t) (descendants e)"

subsection \<open>\<open>setupShare\<close>\<close>

text \<open>The first part of the click listener: the share text, built from the outfit
  list. \<open>forEach\<close> appends one line for each item.\<close>

definition shareText :: "node \<Rightarrow> string" where
  "shareText document =
     (let list = querySelector_class document ''outfit-list'';
          text = ''My outfit from Christa's Closet:\<newline>''
      in case list of
           None \<Rightarrow> text
         | Some l \<Rightarrow>
             foldl (\<lambda>text li. text @ trim (textContent li) @ ''\<newline>'')
               text (querySelectorAll_tag l ''li''))"

text \<open>
  \<open>navigator\<close> as the listener sees it: \<open>share\<close> is \<open>None\<close> when \<open>navigator.share\<close> is
  missing, otherwise how the promise of a call of it settles; \<open>clipboard\<close> likewise for
  \<open>navigator.clipboard\<close> and \<open>writeText\<close>.
\<close>

record navigator =
  share :: "outcome option"
  clipboard :: "outcome option"

text \<open>The second part of the click listener: the text is handed to the first of
  \<open>navigator.share\<close>, \<open>navigator.clipboard\<close> and \<open>alert\<close> that is there. A rejected
  \<open>writeText\<close> has no handler.\<close>

definition deliver :: "navigator \<Rightarrow> string \<Rightarrow> string \<Rightarrow> effect list" where
  "deliver nav text href =
     (case share nav of
        Some r \<Rightarrow>
          NavigatorShare ''Today's Outfit'' text href #
          (case r of
             Fulfilled \<Rightarrow> []
           | Rejected err \<Rightarrow> [ConsoleError ''Share failed'' err])
      | None \<Rightarrow>
          (case clipboard nav of
             Some r \<Rightarrow>
               ClipboardWriteText text #
               (case r of
                  Fulfilled \<Rightarrow> [Alert ''Outfit details copied to clipboard!'']
                | Rejected err \<Rightarrow> [UnhandledRejection err])
           | None \<Rightarrow> [Alert text]))"

text \<open>The click listener of the share button; \<open>href\<close> is \<open>window.location.href\<close>.\<close>

definition share_click :: "navigator \<Rightarrow> node \<Rightarrow> string \<Rightarrow> effect list" where
  "share_click nav document href = deliver nav (shareText document) href"

text \<open>\<open>setupShare\<close>: the listener it adds to the button \<open>share-btn\<close>, none when the
  document has no such element.\<close>

definition setupShare :: "node \<Rightarrow> (navigator \<Rightarrow> string \<Rightarrow> effect list) option" where
  "setupShare document =
     (case getElementById document ''share-btn'' of
        None \<Rightarrow> None
      | Some btn \<Rightarrow> Some (\<lambda>nav href. share_click nav document href))"

subsection \<open>The valid time strings\<close>

text \<open>The string \<open>HH:MM\<close> of an hour and a minute, two decimal digits each: what a
  time input of the settings page stores. The valid time strings are \<open>hhmm h m\<close> for
  \<open>h < 24\<close> and \<open>m < 60\<close>.\<close>

definition digit_char :: "nat \<Rightarrow> char" where
  "digit_char d =
     (if d = 0 then CHR ''0'' else if d = 1 then CHR ''1'' else if d = 2 then CHR ''2''
      else if d = 3 then CHR ''3'' else if d = 4 then CHR ''4'' else if d = 5 then CHR ''5''
      else if d = 6 then CHR ''6'' else if d = 7 then CHR ''7'' else if d = 8 then CHR ''8''
      else CHR ''9'')"

definition pad2 :: "nat \<Rightarrow> string" where
  "pad2 n = [digit_char (n div 10), digit_char (n mod 10)]"

definition hhmm :: "nat \<Rightarrow> nat \<Rightarrow> string" where
  "hhmm h m = pad2 h @ '':'' @ pad2 m"

text \<open>The local time \<open>h:m:00.000\<close> on the local day number \<open>D\<close>, as a reading of the
  local clock. \<open>UTC z (wall D h m)\<close> is the moment at which the zone \<open>z\<close> puts it.\<close>

definition wall :: "int \<Rightarrow> nat \<Rightarrow> nat \<Rightarrow> int" where
  "wall D h m = D * msPerDay + (int h * msPerHour + int m * msPerMinute)"

subsection \<open>Time zones and clock readings as they occur\<close>

text \<open>
  A transition that lowers the offset repeats a stretch of local time. \<open>overlap_ok\<close>
  says that the repeated stretch lies within one local day (clocks are not set back
  across midnight).
\<close>

definition overlap_ok :: "int \<Rightarrow> int \<Rightarrow> int \<Rightarrow> bool" where
  "overlap_ok cur s off = (if off < cur then Day (s + cur - 1) \<le> Day (s + off) else True)"

text \<open>The transitions after the one at \<open>s\<close> to the offset \<open>off\<close>: later in time, with a
  later local start, each offset at most a day, no overlap across midnight.\<close>

fun steps_ok :: "int \<Rightarrow> int \<Rightarrow> (int \<times> int) list \<Rightarrow> bool" where
  "steps_ok s off [] = True"
| "steps_ok s off ((s', off') # ts) =
     (s \<le> s' \<and> s + off \<le> s' + off' \<and> abs off' \<le> msPerDay
      \<and> overlap_ok off s' off' \<and> steps_ok s' off' ts)"

definition zone_ok :: "zone \<Rightarrow> bool" where
  "zone_ok z =
     (abs (base z) \<le> msPerDay \<and>
      (case transitions z of
         [] \<Rightarrow> True
       | (s, off) # ts \<Rightarrow>
           abs off \<le> msPerDay \<and> overlap_ok (base z) s off \<and> steps_ok s off ts))"

text \<open>A clock reading at least six days inside the range of time values, so that no
  date the script builds from it is clipped.\<close>

definition clock_ok :: "int \<Rightarrow> bool" where
  "clock_ok now = (abs now + 6 * msPerDay \<le> 8640000000000000)"


section \<open>Properties\<close>

subsection \<open>Parsing a valid time string\<close>

lemma digit_cases:
  "d < 10 \<Longrightarrow>
   d = 0 \<or> d = 1 \<or> d = 2 \<or> d = 3 \<or> d = 4 \<or> d = 5 \<or> d = 6 \<or> d = 7 \<or> d = 8 \<or> d = (9::nat)"
  by arith

lemma digit_char_facts:
  assumes "d < 10"
  shows "is_digit (digit_char d)" "\<not> is_space (digit_char d)"
    "digit_char d \<noteq> CHR ''+''" "digit_char d \<noteq> CHR ''-''" "digit_char d \<noteq> CHR '':''"
    "digit_val (digit_char d) = int d"
  using digit_cases [OF assms]
  by (auto simp: digit_char_def is_digit_def is_space_def digit_val_def)

lemma parseInt_pad2:
  assumes "n < 100"
  shows "parseInt (pad2 n) = Some (int n)"
proof -
  have hi: "n div 10 < 10" and lo: "n mod 10 < 10"
    using assms by simp_all
  have "int (n div 10) * 10 + int (n mod 10) = int n"
    by (metis of_nat_add of_nat_mult of_nat_numeral div_mult_mod_eq)
  then show ?thesis
    by (simp add: parseInt_def pad2_def trim_start_def Let_def
        digit_char_facts [OF hi] digit_char_facts [OF lo])
qed

lemma split_hhmm:
  assumes "h < 100" "m < 100"
  shows "split CHR '':'' (hhmm h m) = [pad2 h, pad2 m]"
proof -
  have "h div 10 < 10" "h mod 10 < 10" "m div 10 < 10" "m mod 10 < 10"
    using assms by simp_all
  then show ?thesis
    by (simp add: hhmm_def pad2_def digit_char_facts)
qed


subsection \<open>The year of a day\<close>

text \<open>The search for the year ends at the year the standard asks for: the largest year
  whose first day is not after the day of \<open>t\<close>.\<close>

lemma year_from_upper: "d < DayFromYear (year_from d y + 1)"
proof (induction d y rule: year_from.induct)
  case (1 d y)
  show ?case
  proof (cases "DayFromYear (y + 1) \<le> d")
    case True
    with "1.IH" show ?thesis by (simp add: year_from.simps [of d y])
  next
    case False
    then show ?thesis by (simp add: year_from.simps [of d y])
  qed
qed

lemma year_from_lower: "DayFromYear y \<le> d \<Longrightarrow> DayFromYear (year_from d y) \<le> d"
proof (induction d y rule: year_from.induct)
  case (1 d y)
  show ?case
  proof (cases "DayFromYear (y + 1) \<le> d")
    case True
    with "1.IH" show ?thesis by (simp add: year_from.simps [of d y])
  next
    case False
    with "1.prems" show ?thesis by (simp add: year_from.simps [of d y])
  qed
qed

lemma leap_days_nonneg:
  fixes k a b c :: int
  assumes "0 \<le> k" "4 * a \<le> k + 1" "0 \<le> b" "400 * c \<le> k + 369"
  shows "365 * k + (a - b + c) \<le> 366 * k"
proof (cases "k = 0")
  case True
  with assms have "a \<le> 0" "c \<le> 0" by simp_all
  with True assms(3) show ?thesis by simp
next
  case False
  with assms(1) have "1 \<le> k" by simp
  with assms(2,4) have "400 * (a + c) < 400 * (k + 1)" by simp
  then have "a + c < k + 1" by simp
  with assms(3) show ?thesis by simp
qed

lemma leap_days_neg:
  fixes k a b c :: int
  assumes "k < 0" "4 * a \<le> k + 1" "k - 30 \<le> 100 * b" "400 * c \<le> k + 369"
  shows "365 * k + (a - b + c) \<le> 365 * k"
proof (cases "k = - 1")
  case True
  with assms have "a \<le> 0" "c \<le> 0" "0 \<le> b" by simp_all
  then show ?thesis by simp
next
  case False
  with assms(1) have "k \<le> - 2" by simp
  with assms(2,3,4) have "400 * (a + c - b) < 400 * 1" by simp
  then have "a + c - b < 1" by (simp only: mult_less_cancel_left_pos zero_less_numeral)
  then show ?thesis by simp
qed

lemma div_lower: "(0::int) < n \<Longrightarrow> n * (x div n) \<le> x"
  using mult_div_mod_eq [of n x] pos_mod_sign [of n x] by linarith

lemma div_upper: "(0::int) < n \<Longrightarrow> x < n * (x div n) + n"
  using mult_div_mod_eq [of n x] pos_mod_bound [of n x] by linarith

lemma DayFromYear_1970:
  "DayFromYear (1970 + k) = 365 * k + ((k + 1) div 4 - (k + 69) div 100 + (k + 369) div 400)"
proof -
  have "1970 + k - 1970 = k" "1970 + k - 1969 = k + 1" "1970 + k - 1901 = k + 69"
    "1970 + k - 1601 = k + 369"
    by simp_all
  then show ?thesis
    unfolding DayFromYear_def by (simp only: add_diff_eq [symmetric] add.assoc)
qed

lemma DayFromYear_start:
  "DayFromYear (1970 + (if 0 \<le> d then d div 366 else d div 365)) \<le> d"
proof (cases "0 \<le> d")
  case True
  define k where "k = d div 366"
  have k: "0 \<le> k" "366 * k \<le> d"
    using True by (simp_all add: k_def div_lower pos_imp_zdiv_nonneg_iff)
  have "DayFromYear (1970 + k) \<le> 366 * k"
    unfolding DayFromYear_1970
  proof (rule leap_days_nonneg)
    show "0 \<le> k" by fact
    show "4 * ((k + 1) div 4) \<le> k + 1" by (rule div_lower) simp
    show "0 \<le> (k + 69) div 100" using k(1) by (simp add: pos_imp_zdiv_nonneg_iff)
    show "400 * ((k + 369) div 400) \<le> k + 369" by (rule div_lower) simp
  qed
  with k(2) have "DayFromYear (1970 + k) \<le> d" by (rule order_trans [rotated])
  then show ?thesis
    using True by (simp only: k_def if_True)
next
  case False
  define k where "k = d div 365"
  have k: "k < 0" "365 * k \<le> d"
    using False by (simp_all add: k_def div_lower div_neg_pos_less0)
  have "DayFromYear (1970 + k) \<le> 365 * k"
    unfolding DayFromYear_1970
  proof (rule leap_days_neg)
    show "k < 0" by fact
    show "4 * ((k + 1) div 4) \<le> k + 1" by (rule div_lower) simp
    have "k + 69 < 100 * ((k + 69) div 100) + 100" by (rule div_upper) simp
    then show "k - 30 \<le> 100 * ((k + 69) div 100)" by simp
    show "400 * ((k + 369) div 400) \<le> k + 369" by (rule div_lower) simp
  qed
  with k(2) have "DayFromYear (1970 + k) \<le> d" by (rule order_trans [rotated])
  then show ?thesis
    using False by (simp only: k_def if_False)
qed

lemma DayFromYear_mono: "y \<le> y' \<Longrightarrow> DayFromYear y \<le> DayFromYear y'"
proof (induction "nat (y' - y)" arbitrary: y')
  case 0
  then show ?case by simp
next
  case (Suc n)
  then have "n = nat ((y' - 1) - y)" "y \<le> y' - 1" by simp_all
  then have "DayFromYear y \<le> DayFromYear (y' - 1)" by (rule Suc.hyps(1))
  also have "\<dots> \<le> DayFromYear y'"
    using DayFromYear_step [of "y' - 1"] by simp
  finally show ?case .
qed

text \<open>\<open>YearFromTime t\<close> is the largest year whose first day is not after \<open>t\<close>.\<close>

lemma YearFromTime_iff: "DayFromYear y \<le> Day t \<longleftrightarrow> y \<le> YearFromTime t"
proof -
  let ?Y = "YearFromTime t"
  have lo: "DayFromYear ?Y \<le> Day t"
    unfolding YearFromTime_def Let_def by (rule year_from_lower) (rule DayFromYear_start)
  have hi: "Day t < DayFromYear (?Y + 1)"
    unfolding YearFromTime_def Let_def by (rule year_from_upper)
  show ?thesis
  proof
    assume a: "DayFromYear y \<le> Day t"
    show "y \<le> ?Y"
    proof (rule ccontr)
      assume "\<not> y \<le> ?Y"
      then have "?Y + 1 \<le> y" by simp
      then have "DayFromYear (?Y + 1) \<le> DayFromYear y" by (rule DayFromYear_mono)
      with a hi show False by simp
    qed
  next
    assume "y \<le> ?Y"
    then have "DayFromYear y \<le> DayFromYear ?Y" by (rule DayFromYear_mono)
    with lo show "DayFromYear y \<le> Day t" by simp
  qed
qed

subsection \<open>Days\<close>

lemma Day_lower: "Day t * 86400000 \<le> t"
  using div_lower [of 86400000 t] by (simp add: Day_def msPerDay_def mult.commute)

lemma Day_upper: "t < Day t * 86400000 + 86400000"
  using div_upper [of 86400000 t] by (simp add: Day_def msPerDay_def mult.commute)

lemma Day_mono: "a \<le> b \<Longrightarrow> Day a \<le> Day b"
  unfolding Day_def msPerDay_def by (rule zdiv_mono1) simp_all

lemma Day_less: "Day a < Day b \<Longrightarrow> a < Day b * 86400000"
proof -
  assume "Day a < Day b"
  then have "(Day a + 1) * 86400000 \<le> Day b * 86400000" by simp
  with Day_upper [of a] show ?thesis by (simp add: algebra_simps)
qed

lemma Day_TimeWithinDay: "Day t * msPerDay + TimeWithinDay t = t"
  by (simp add: Day_def TimeWithinDay_def)

lemma Day_next: "Day (t + msPerDay) = Day t + 1"
  by (simp add: Day_def msPerDay_def)


lemma hm_bounds:
  assumes "h < 24" "m < 60"
  shows "0 \<le> int h * msPerHour + int m * msPerMinute"
    and "int h * msPerHour + int m * msPerMinute < 86400000"
proof -
  have "int h \<le> 23" "int m \<le> 59" using assms by simp_all
  then show "0 \<le> int h * msPerHour + int m * msPerMinute"
    and "int h * msPerHour + int m * msPerMinute < 86400000"
    by (simp_all add: msPerHour_def msPerMinute_def)
qed

lemma Day_wall:
  assumes "h < 24" "m < 60"
  shows "Day (wall D h m) = D"
    and "TimeWithinDay (wall D h m) = int h * msPerHour + int m * msPerMinute"
  using hm_bounds [OF assms]
  by (simp_all add: wall_def Day_def TimeWithinDay_def msPerDay_def)


subsection \<open>Offsets of a zone\<close>

lemma offsets_bounded:
  "steps_ok s off ts \<Longrightarrow> abs off \<le> msPerDay \<Longrightarrow>
     abs (offset_at off ts t) \<le> msPerDay \<and> abs (offset_for off ts x) \<le> msPerDay"
proof (induction ts arbitrary: s off)
  case Nil
  then show ?case by simp
next
  case (Cons a ts)
  obtain s' off' where a: "a = (s', off')" by (cases a)
  from Cons.prems a have "steps_ok s' off' ts" "abs off' \<le> msPerDay" by simp_all
  then have "abs (offset_at off' ts t) \<le> msPerDay \<and> abs (offset_for off' ts x) \<le> msPerDay"
    by (rule Cons.IH)
  with Cons.prems(2) show ?case by (simp add: a)
qed

lemma LocalTZA_bounded:
  assumes "zone_ok z"
  shows "abs (LocalTZA z t b) \<le> 86400000"
proof (cases "transitions z")
  case Nil
  with assms show ?thesis by (simp add: zone_ok_def LocalTZA_def msPerDay_def)
next
  case (Cons a ts)
  obtain s off where a: "a = (s, off)" by (cases a)
  from assms Cons a have b: "abs (base z) \<le> msPerDay" "abs off \<le> msPerDay" "steps_ok s off ts"
    by (simp_all add: zone_ok_def)
  from offsets_bounded [OF b(3) b(2)] b(1) show ?thesis
    by (simp add: LocalTZA_def Cons a msPerDay_def)
qed

text \<open>After a transition, instants read as local times from the local start of the
  transition on, and local times from there on are put at instants after it.\<close>

lemma offset_at_lower:
  "steps_ok s off ts \<Longrightarrow> s \<le> t \<Longrightarrow> s + off \<le> t + offset_at off ts t"
proof (induction ts arbitrary: s off)
  case Nil
  then show ?case by simp
next
  case (Cons a ts)
  obtain s' off' where a: "a = (s', off')" by (cases a)
  show ?case
  proof (cases "t < s'")
    case True
    with Cons.prems show ?thesis by (simp add: a)
  next
    case False
    from Cons.prems a have "steps_ok s' off' ts" "s + off \<le> s' + off'" by simp_all
    moreover from False have "s' \<le> t" by simp
    ultimately have "s + off \<le> t + offset_at off' ts t"
      using Cons.IH [of s' off'] by simp
    with False show ?thesis by (simp add: a)
  qed
qed

lemma offset_for_lower:
  "steps_ok s off ts \<Longrightarrow> s + off \<le> x \<Longrightarrow> s \<le> x - offset_for off ts x"
proof (induction ts arbitrary: s off)
  case Nil
  then show ?case by simp
next
  case (Cons a ts)
  obtain s' off' where a: "a = (s', off')" by (cases a)
  show ?case
  proof (cases "x < s' + max off off'")
    case True
    with Cons.prems show ?thesis by (simp add: a)
  next
    case False
    from Cons.prems a have "steps_ok s' off' ts" "s \<le> s'" by simp_all
    moreover from False have "s' + off' \<le> x" by simp
    ultimately have "s \<le> x - offset_for off' ts x"
      using Cons.IH [of s' off'] by simp
    with False show ?thesis by (simp add: a)
  qed
qed

text \<open>The days of a zone are in order: a local time of a later local day is put after
  every instant of an earlier local day.\<close>

lemma days_in_order_aux:
  "(case ts of [] \<Rightarrow> True | (s, off) # r \<Rightarrow> overlap_ok cur s off \<and> steps_ok s off r) \<Longrightarrow>
   Day (t + offset_at cur ts t) < Day x \<Longrightarrow> t < x - offset_for cur ts x"
proof (induction ts arbitrary: cur)
  case Nil
  from Day_less [OF Nil.prems(2)] Day_lower [of x] show ?case by simp
next
  case (Cons a r)
  obtain s off where a: "a = (s, off)" by (cases a)
  from Cons.prems(1) a have ok: "overlap_ok cur s off" "steps_ok s off r" by simp_all
  have tail: "case r of [] \<Rightarrow> True | (s', off') # r' \<Rightarrow> overlap_ok off s' off' \<and> steps_ok s' off' r'"
    using ok(2) by (cases r) auto
  show ?case
  proof (cases "t < s")
    case before: True
    show ?thesis
    proof (cases "x < s + max cur off")
      case True
      from Cons.prems(2) before have "Day (t + cur) < Day x" by (simp add: a)
      from Day_less [OF this] Day_lower [of x] True show ?thesis by (simp add: a)
    next
      case False
      then have "s + off \<le> x" by simp
      from offset_for_lower [OF ok(2) this] before False show ?thesis by (simp add: a)
    qed
  next
    case after: False
    then have st: "s \<le> t" by simp
    show ?thesis
    proof (cases "x < s + max cur off")
      case True
      let ?L = "t + offset_at off r t"
      from Cons.prems(2) after have d: "Day ?L < Day x" by (simp add: a)
      have l: "s + off \<le> ?L" by (rule offset_at_lower [OF ok(2) st])
      have lx: "?L < Day x * 86400000" by (rule Day_less [OF d])
      have bx: "Day x * 86400000 \<le> x" by (rule Day_lower)
      show ?thesis
      proof (cases "off < cur")
        case False
        with True l lx bx show ?thesis by simp
      next
        case fall: True
        with True have "x \<le> s + cur - 1" by simp
        with bx have "Day x * 86400000 \<le> s + cur - 1" by simp
        then have "Day (Day x * 86400000) \<le> Day (s + cur - 1)" by (rule Day_mono)
        then have 1: "Day x \<le> Day (s + cur - 1)" by (simp add: Day_def msPerDay_def)
        from ok(1) fall have 2: "Day (s + cur - 1) \<le> Day (s + off)" by (simp add: overlap_ok_def)
        from l have "Day (s + off) \<le> Day ?L" by (rule Day_mono)
        with 1 2 d show ?thesis by simp
      qed
    next
      case False
      from Cons.prems(2) after have "Day (t + offset_at off r t) < Day x" by (simp add: a)
      with tail have "t < x - offset_for off r x" by (rule Cons.IH)
      with False show ?thesis by (simp add: a)
    qed
  qed
qed

lemma days_in_order:
  assumes "zone_ok z" and "Day (LocalTime z t) < Day x"
  shows "t < UTC z x"
proof -
  have "case transitions z of [] \<Rightarrow> True
        | (s, off) # r \<Rightarrow> overlap_ok (base z) s off \<and> steps_ok s off r"
    using assms(1) by (auto simp: zone_ok_def split: list.splits)
  moreover have "Day (t + offset_at (base z) (transitions z) t) < Day x"
    using assms(2) by (simp add: LocalTime_def LocalTZA_def)
  ultimately have "t < x - offset_for (base z) (transitions z) x"
    by (rule days_in_order_aux)
  then show ?thesis by (simp add: UTC_def LocalTZA_def)
qed

subsection \<open>One run of \<open>schedule\<close>\<close>

lemma MonthFromTime_range: "0 \<le> MonthFromTime t \<and> MonthFromTime t \<le> 11"
  by (simp add: MonthFromTime_def Let_def)

text \<open>The day after: \<open>MakeDay\<close> of the year and month of \<open>t\<close> and of its date plus one
  is the day number of \<open>t\<close> plus one, over the end of a month or a year too.\<close>

lemma MakeDay_next:
  "MakeDay (YearFromTime t) (MonthFromTime t) (Some (DateFromTime t + 1)) = Some (Day t + 1)"
proof -
  have r: "0 \<le> MonthFromTime t" "MonthFromTime t \<le> 11"
    using MonthFromTime_range [of t] by simp_all
  then have "MonthFromTime t div 12 = 0" "MonthFromTime t mod 12 = MonthFromTime t"
    by simp_all
  then show ?thesis
    by (simp add: MakeDay_def Let_def DateFromTime_def DayWithinYear_def InLeapYear_def)
qed

text \<open>\<open>setDate(getDate() + 1)\<close> keeps the local time of day and steps the local day:
  the result is where the zone puts that local time, which is 24 hours later only if
  the offset is the same there.\<close>

lemma setDate_next:
  "setDate z (Some t) (num_add (getDate z (Some t)) (Some 1))
     = TimeClip (UTC z (LocalTime z t + msPerDay))"
proof -
  have "(Day (LocalTime z t) + 1) * msPerDay + TimeWithinDay (LocalTime z t)
          = LocalTime z t + msPerDay"
    using Day_TimeWithinDay [of "LocalTime z t"] by (simp add: algebra_simps)
  then show ?thesis
    by (simp add: setDate_def getDate_def num_add_def Let_def MakeDay_next MakeDate_def)
qed

lemma setHours_wall:
  "setHours z (Some t) (Some (int h)) (Some (int m)) (Some 0) (Some 0)
     = TimeClip (UTC z (wall (Day (LocalTime z t)) h m))"
  by (simp add: setHours_def MakeDate_def MakeTime_def wall_def Let_def msPerSecond_def)

text \<open>No clipping: the dates that \<open>schedule\<close> builds stay within six days of the clock
  reading.\<close>

lemma today_near:
  assumes "zone_ok z" "h < 24" "m < 60"
  shows "abs (UTC z (wall (Day (LocalTime z now)) h m) - now) \<le> 3 * 86400000"
proof -
  let ?L = "now + LocalTZA z now True"
  let ?w = "wall (Day ?L) h m"
  have a: "abs (LocalTZA z now True) \<le> 86400000" "abs (LocalTZA z ?w False) \<le> 86400000"
    using assms(1) by (rule LocalTZA_bounded)+
  have b: "Day ?L * 86400000 \<le> ?L" "?L < Day ?L * 86400000 + 86400000"
    by (rule Day_lower, rule Day_upper)
  have c: "?w = Day ?L * 86400000 + (int h * msPerHour + int m * msPerMinute)"
    by (simp add: wall_def msPerDay_def)
  from a b hm_bounds [OF assms(2,3)] show ?thesis
    unfolding UTC_def LocalTime_def c by linarith
qed

lemma next_near:
  assumes "zone_ok z"
  shows "abs (UTC z (LocalTime z t + msPerDay) - t) \<le> 3 * 86400000"
proof -
  have "abs (LocalTZA z t True) \<le> 86400000"
    "abs (LocalTZA z (t + LocalTZA z t True + 86400000) False) \<le> 86400000"
    using assms by (rule LocalTZA_bounded)+
  then show ?thesis
    unfolding UTC_def LocalTime_def msPerDay_def by linarith
qed

lemma TimeClip_near:
  assumes "clock_ok now" "abs (t - now) \<le> 6 * 86400000"
  shows "TimeClip t = Some t"
  using assms by (simp add: TimeClip_def clock_ok_def msPerDay_def)

text \<open>What one run of \<open>schedule\<close> computes for a valid time string: \<open>T\<close> is where the
  zone puts the time of day on today's local date; when that is not after the clock
  reading, the target is where the zone puts the local time of \<open>T\<close> one local day on.\<close>

lemma schedule_valid:
  assumes "zone_ok z" "clock_ok now" "h < 24" "m < 60"
  shows "schedule z (hhmm h m) now =
     (let T = UTC z (wall (Day (LocalTime z now)) h m);
          T' = (if T \<le> now then UTC z (LocalTime z T + msPerDay) else T)
      in \<lparr>target = Some T', timeout = Some (T' - now)\<rparr>)"
proof -
  let ?T = "UTC z (wall (Day (LocalTime z now)) h m)"
  let ?N = "UTC z (LocalTime z ?T + msPerDay)"
  have n1: "abs (?T - now) \<le> 3 * 86400000"
    by (rule today_near [OF assms(1,3,4)])
  have n2: "abs (?N - ?T) \<le> 3 * 86400000"
    by (rule next_near [OF assms(1)])
  have c1: "TimeClip ?T = Some ?T"
    by (rule TimeClip_near [OF assms(2)]) (use n1 in linarith)
  have c2: "TimeClip ?N = Some ?N"
    by (rule TimeClip_near [OF assms(2)]) (use n1 n2 in linarith)
  have "h < 100" "m < 100" using assms(3,4) by simp_all
  then show ?thesis
    by (simp add: schedule_def split_hhmm index_str_def parseInt_pad2 setHours_wall c1
        num_le_def setDate_next c2 num_sub_def getTime_def Let_def)
qed

text \<open>In a zone whose days are in order, the day of the target first built is today's
  or a later one, and the target one local day on is after the clock reading.\<close>

lemma today_not_earlier:
  assumes "zone_ok z" "h < 24" "m < 60"
  shows "D \<le> Day (LocalTime z (UTC z (wall D h m)))"
proof (rule ccontr)
  assume "\<not> D \<le> Day (LocalTime z (UTC z (wall D h m)))"
  then have "Day (LocalTime z (UTC z (wall D h m))) < Day (wall D h m)"
    by (simp add: Day_wall [OF assms(2,3)])
  with assms(1) have "UTC z (wall D h m) < UTC z (wall D h m)"
    by (rule days_in_order)
  then show False by simp
qed

lemma next_after_now:
  assumes "zone_ok z" "h < 24" "m < 60"
  shows "now < UTC z (LocalTime z (UTC z (wall (Day (LocalTime z now)) h m)) + msPerDay)"
proof -
  let ?T = "UTC z (wall (Day (LocalTime z now)) h m)"
  have "Day (LocalTime z now) \<le> Day (LocalTime z ?T)"
    by (rule today_not_earlier [OF assms])
  then have "Day (LocalTime z now) < Day (LocalTime z ?T + msPerDay)"
    by (simp add: Day_next)
  with assms(1) show ?thesis by (rule days_in_order)
qed



subsection \<open>The target time is still ahead today\<close>




subsection \<open>The target time has passed today\<close>




subsection \<open>The target time is now\<close>




subsection \<open>The delay is never negative\<close>

text \<open>The delay is more than 0 for a valid time string: the target is strictly after
  the current moment.\<close>

lemma schedule_timeout_pos:
  assumes "zone_ok z" and "clock_ok now" and "h < 24" and "m < 60"
  shows "\<exists>d. timeout (schedule z (hhmm h m) now) = Some d \<and> 0 < d"
  using next_after_now [OF assms(1,3,4), of now]
  by (simp add: schedule_valid [OF assms] Let_def)



subsection \<open>The share text\<close>

lemma foldl_append_concat:
  "foldl (\<lambda>text li. text @ f li) acc xs = acc @ concat (map f xs)"
  by (induction xs arbitrary: acc) simp_all

lemma shareText_found:
  assumes "querySelector_class document ''outfit-list'' = Some l"
  shows "shareText document =
           ''My outfit from Christa's Closet:\<newline>''
           @ concat (map (\<lambda>li. trim (textContent li) @ ''\<newline>'')
                         (querySelectorAll_tag l ''li''))"
  using assms by (simp add: shareText_def Let_def foldl_append_concat)

lemma li_lines:
  "concat (map (\<lambda>li. trim (textContent li) @ ''\<newline>'')
     (filter (has_tag ''li'')
        (concat (map nodes (map (\<lambda>s. Element ''li'' None [] [Text s]) items)))))
     = concat (map (\<lambda>s. trim s @ ''\<newline>'') items)"
  by (induction items) (simp_all add: has_tag_def)

text \<open>
  Claim C5. For every list of outfit items, the share text is the fixed header followed
  by the trimmed text content of each list item in document order, each ended by a
  newline: for any document, with the \<open>li\<close> elements found under the first element of
  class \<open>outfit-list\<close>; for a list whose items hold the strings \<open>items\<close>; and for the
  items \<open>Blue jeans\<close> and \<open>White tee\<close>, where the text is exactly the header and the
  two lines.
\<close>

theorem shareText_items:
  "(querySelector_class document ''outfit-list'' = Some l \<longrightarrow>
      shareText document =
        ''My outfit from Christa's Closet:\<newline>''
        @ concat (map (\<lambda>li. trim (textContent li) @ ''\<newline>'')
                      (querySelectorAll_tag l ''li'')))
   \<and> shareText (Element ''ul'' None [''outfit-list'']
                  (map (\<lambda>s. Element ''li'' None [] [Text s]) items)) =
        ''My outfit from Christa's Closet:\<newline>''
        @ concat (map (\<lambda>s. trim s @ ''\<newline>'') items)
   \<and> shareText (Element ''ul'' None [''outfit-list'']
                  [Element ''li'' None [] [Text ''Blue jeans''],
                   Element ''li'' None [] [Text ''White tee'']]) =
        ''My outfit from Christa's Closet:\<newline>Blue jeans\<newline>White tee\<newline>''"
proof -
  let ?ul = "\<lambda>items. Element ''ul'' None [''outfit-list'']
                  (map (\<lambda>s. Element ''li'' None [] [Text s]) items)"
  have q: "querySelector_class (?ul items) ''outfit-list'' = Some (?ul items)" for items
    by (simp add: querySelector_class_def has_class_def)
  have g: "shareText (?ul items) =
        ''My outfit from Christa's Closet:\<newline>''
        @ concat (map (\<lambda>s. trim s @ ''\<newline>'') items)" for items
    unfolding shareText_found [OF q]
    by (simp only: querySelectorAll_tag_def descendants_def node.case li_lines)
  have t: "trim ''Blue jeans'' = ''Blue jeans''" "trim ''White tee'' = ''White tee''"
    by (simp_all add: trim_def is_space_def)
  have "shareText (?ul [''Blue jeans'', ''White tee'']) =
        ''My outfit from Christa's Closet:\<newline>Blue jeans\<newline>White tee\<newline>''"
    unfolding g by (simp add: t)
  then show ?thesis
    using g [of items] by (simp add: shareText_found)
qed

theorem shareText_items_witness:
  "querySelector_class
     (Element ''html'' None []
       [Element ''body'' None [''home'']
          [Element ''h1'' None [] [Text ''Today''],
           Element ''ul'' None [''outfit-list'']
             [Text ''\<newline>  '',
              Element ''li'' None [] [Text ''  Blue jeans\<newline>''],
              Element ''li'' None [''top''] [Element ''b'' None [] [Text ''White'' ], Text '' tee ''],
              Text ''\<newline>''],
           Element ''button'' (Some ''share-btn'') [] [Text ''Share'']]]) ''outfit-list''
    = Some (Element ''ul'' None [''outfit-list'']
             [Text ''\<newline>  '',
              Element ''li'' None [] [Text ''  Blue jeans\<newline>''],
              Element ''li'' None [''top''] [Element ''b'' None [] [Text ''White'' ], Text '' tee ''],
              Text ''\<newline>''])
   \<and> shareText
     (Element ''html'' None []
       [Element ''body'' None [''home'']
          [Element ''h1'' None [] [Text ''Today''],
           Element ''ul'' None [''outfit-list'']
             [Text ''\<newline>  '',
              Element ''li'' None [] [Text ''  Blue jeans\<newline>''],
              Element ''li'' None [''top''] [Element ''b'' None [] [Text ''White'' ], Text '' tee ''],
              Text ''\<newline>''],
           Element ''button'' (Some ''share-btn'') [] [Text ''Share'']]])
    = ''My outfit from Christa's Closet:\<newline>Blue jeans\<newline>White tee\<newline>''"
proof -
  let ?ul = "Element ''ul'' None [''outfit-list'']
             [Text ''\<newline>  '',
              Element ''li'' None [] [Text ''  Blue jeans\<newline>''],
              Element ''li'' None [''top''] [Element ''b'' None [] [Text ''White'' ], Text '' tee ''],
              Text ''\<newline>'']"
  let ?page = "Element ''html'' None []
       [Element ''body'' None [''home'']
          [Element ''h1'' None [] [Text ''Today''], ?ul,
           Element ''button'' (Some ''share-btn'') [] [Text ''Share'']]]"
  have q: "querySelector_class ?page ''outfit-list'' = Some ?ul"
    by (simp add: querySelector_class_def has_class_def)
  have "shareText ?page =
        ''My outfit from Christa's Closet:\<newline>''
        @ concat (map (\<lambda>li. trim (textContent li) @ ''\<newline>'')
                      (querySelectorAll_tag ?ul ''li''))"
    using shareText_items [of ?page ?ul] q by blast
  then show ?thesis
    using q by (simp add: querySelectorAll_tag_def descendants_def has_tag_def trim_def is_space_def)
qed

subsection \<open>No outfit list in the document\<close>

text \<open>
  Claim C10. When the document has no element of class \<open>outfit-list\<close>, the share
  action still goes on: the share text is exactly the header, with no item line, and it
  is delivered (some delivery effect happens, with the header as its text).
\<close>

theorem shareText_no_list:
  assumes "querySelector_class document ''outfit-list'' = None"
  shows "shareText document = ''My outfit from Christa's Closet:\<newline>''
       \<and> share_click nav document href
           = deliver nav ''My outfit from Christa's Closet:\<newline>'' href
       \<and> share_click nav document href \<noteq> []"
proof -
  have t: "shareText document = ''My outfit from Christa's Closet:\<newline>''"
    using assms by (simp add: shareText_def)
  have "deliver nav tx href \<noteq> []" for tx
    by (simp add: deliver_def split: option.split)
  then show ?thesis
    by (simp add: share_click_def t)
qed

theorem shareText_no_list_witness:
  "querySelector_class
     (Element ''html'' None []
        [Element ''body'' None []
           [Element ''p'' None [''empty''] [Text ''Nothing picked yet.''],
            Element ''button'' (Some ''share-btn'') [] [Text ''Share'']]]) ''outfit-list'' = None
   \<and> share_click \<lparr>share = None, clipboard = None\<rparr>
     (Element ''html'' None []
        [Element ''body'' None []
           [Element ''p'' None [''empty''] [Text ''Nothing picked yet.''],
            Element ''button'' (Some ''share-btn'') [] [Text ''Share'']]]) ''https://closet.example/''
     = [Alert ''My outfit from Christa's Closet:\<newline>'']"
proof -
  let ?page = "Element ''html'' None []
        [Element ''body'' None []
           [Element ''p'' None [''empty''] [Text ''Nothing picked yet.''],
            Element ''button'' (Some ''share-btn'') [] [Text ''Share'']]]"
  have q: "querySelector_class ?page ''outfit-list'' = None"
    by (simp add: querySelector_class_def has_class_def)
  show ?thesis
    using shareText_no_list [OF q, of "\<lparr>share = None, clipboard = None\<rparr>" "''https://closet.example/''"] q
    by (simp add: deliver_def)
qed

subsection \<open>Delivery of the share text\<close>

text \<open>
  Claim C8. The delivery method of the share action is chosen by the presence of the
  capabilities alone, looked at once in the order native share, clipboard, alert. When
  the native share is there and its call fails, the failure is logged and neither the
  clipboard nor an alert is tried, whether or not the clipboard is there.
\<close>

theorem share_click_no_fallback:
  "(share nav = Some (Rejected err) \<longrightarrow>
      share_click nav document href =
        [NavigatorShare ''Today's Outfit'' (shareText document) href,
         ConsoleError ''Share failed'' err]
      \<and> (\<forall>t. ClipboardWriteText t \<notin> set (share_click nav document href))
      \<and> (\<forall>t. Alert t \<notin> set (share_click nav document href)))
   \<and> (share nav = Some Fulfilled \<longrightarrow>
      share_click nav document href =
        [NavigatorShare ''Today's Outfit'' (shareText document) href])
   \<and> (share nav = None \<and> clipboard nav = Some r \<longrightarrow>
      share_click nav document href =
        ClipboardWriteText (shareText document)
        # (case r of Fulfilled \<Rightarrow> [Alert ''Outfit details copied to clipboard!'']
                   | Rejected e \<Rightarrow> [UnhandledRejection e]))
   \<and> (share nav = None \<and> clipboard nav = None \<longrightarrow>
      share_click nav document href = [Alert (shareText document)])"
  by (simp add: share_click_def deliver_def)

theorem share_click_no_fallback_witness:
  "share \<lparr>share = Some (Rejected ''AbortError''), clipboard = Some Fulfilled\<rparr>
     = Some (Rejected ''AbortError'')
   \<and> share_click \<lparr>share = Some (Rejected ''AbortError''), clipboard = Some Fulfilled\<rparr>
        (Element ''ul'' None [''outfit-list''] [Element ''li'' None [] [Text ''Blue jeans'']])
        ''https://closet.example/''
      = [NavigatorShare ''Today's Outfit''
           (shareText (Element ''ul'' None [''outfit-list''] [Element ''li'' None [] [Text ''Blue jeans'']]))
           ''https://closet.example/'',
         ConsoleError ''Share failed'' ''AbortError'']"
  using share_click_no_fallback
    [of "\<lparr>share = Some (Rejected ''AbortError''), clipboard = Some Fulfilled\<rparr>" "''AbortError''"
        "Element ''ul'' None [''outfit-list''] [Element ''li'' None [] [Text ''Blue jeans'']]"
        "''https://closet.example/''" Fulfilled]
  by simp

subsection \<open>Permission not granted\<close>

text \<open>
  Claim C7. If the page has no \<open>Notification\<close>, or the permission it answers with is
  anything other than \<open>granted\<close>, then \<open>setupNotifications\<close> schedules nothing (no timer
  is armed, no notification shown) and no error comes out (nothing is logged, no
  rejection is left unhandled, no alert is shown): at most the permission is asked for.
\<close>

theorem setupNotifications_not_granted:
  assumes "Notification w \<noteq> Some ''granted''"
  shows "setupNotifications w clock later
           = (case Notification w of None \<Rightarrow> [] | Some p \<Rightarrow> [RequestPermission])
       \<and> (\<forall>d. SetTimeout d \<notin> set (setupNotifications w clock later))
       \<and> (\<forall>t b. ShowNotification t b \<notin> set (setupNotifications w clock later))
       \<and> (\<forall>a e. ConsoleError a e \<notin> set (setupNotifications w clock later))
       \<and> (\<forall>e. UnhandledRejection e \<notin> set (setupNotifications w clock later))
       \<and> (\<forall>t. Alert t \<notin> set (setupNotifications w clock later))"
  using assms by (simp add: setupNotifications_def split: option.split)

theorem setupNotifications_not_granted_witness:
  "Notification \<lparr>Notification = None, notification_time = Some ''07:30'',
       DEFAULT_NOTIFICATION_TIME = Some ''09:00'', timeZone = \<lparr>base = 0, transitions = []\<rparr>\<rparr> \<noteq> Some ''granted''
   \<and> setupNotifications \<lparr>Notification = None, notification_time = Some ''07:30'',
       DEFAULT_NOTIFICATION_TIME = Some ''09:00'', timeZone = \<lparr>base = 0, transitions = []\<rparr>\<rparr> 1793606400000 [1793607000000] = []
   \<and> Notification \<lparr>Notification = Some ''denied'', notification_time = Some ''07:30'',
       DEFAULT_NOTIFICATION_TIME = Some ''09:00'', timeZone = \<lparr>base = 0, transitions = []\<rparr>\<rparr> \<noteq> Some ''granted''
   \<and> setupNotifications \<lparr>Notification = Some ''denied'', notification_time = Some ''07:30'',
       DEFAULT_NOTIFICATION_TIME = Some ''09:00'', timeZone = \<lparr>base = 0, transitions = []\<rparr>\<rparr> 1793606400000 [1793607000000]
      = [RequestPermission]"
  using setupNotifications_not_granted
    [of "\<lparr>Notification = None, notification_time = Some ''07:30'',
       DEFAULT_NOTIFICATION_TIME = Some ''09:00'', timeZone = \<lparr>base = 0, transitions = []\<rparr>\<rparr>" 1793606400000 "[1793607000000]"]
   setupNotifications_not_granted
    [of "\<lparr>Notification = Some ''denied'', notification_time = Some ''07:30'',
       DEFAULT_NOTIFICATION_TIME = Some ''09:00'', timeZone = \<lparr>base = 0, transitions = []\<rparr>\<rparr>" 1793606400000 "[1793607000000]"]
  by simp

text \<open>With the permission granted the timer is armed: the hypothesis above is what
  keeps the scheduler from starting.\<close>

lemma setupNotifications_granted:
  assumes "Notification w = Some ''granted''"
  shows "\<exists>d rest. setupNotifications w clock later = RequestPermission # SetTimeout d # rest"
  using assms by (cases later) (simp_all add: setupNotifications_def)

subsection \<open>The time string that is used\<close>

text \<open>
  Claim C6 says that the stored value is returned whenever one is present, and the
  configured default when no stored value is present. A stored value that is the empty
  string (what a cleared settings input stores) is present and is not returned: the
  default is. A configured default that is the empty string is not returned either:
  \<open>08:00\<close> is.
\<close>

theorem resolveTimeStr_counterexample:
  "notification_time
     (nt_change \<lparr>Notification = Some ''granted'', notification_time = Some ''07:30'',
        DEFAULT_NOTIFICATION_TIME = Some ''09:00'', timeZone = \<lparr>base = 0, transitions = []\<rparr>\<rparr> '''') = Some ''''
   \<and> resolveTimeStr (Some '''') (Some ''09:00'') = ''09:00''
   \<and> resolveTimeStr (Some '''') (Some ''09:00'') \<noteq> ''''
   \<and> resolveTimeStr None (Some '''') = ''08:00''
   \<and> resolveTimeStr None (Some '''') \<noteq> ''''"
  by (simp add: resolveTimeStr_def js_or_def js_or_str_def truthy_def nt_change_def)

text \<open>
  Claim C6, amended. The time string is the stored value whenever one is present and not
  empty, whatever the default is; with no stored value it is the configured default, when
  that is present and not empty; with neither a stored value nor a configured default
  it is the literal \<open>08:00\<close>.
\<close>

theorem resolveTimeStr_order:
  "(s \<noteq> [] \<longrightarrow> resolveTimeStr (Some s) dflt = s)
   \<and> (d \<noteq> [] \<longrightarrow> resolveTimeStr None (Some d) = d)
   \<and> resolveTimeStr None None = ''08:00''"
  by (simp add: resolveTimeStr_def js_or_def js_or_str_def truthy_def)

theorem resolveTimeStr_order_witness:
  "''07:30'' \<noteq> [] \<and> resolveTimeStr (Some ''07:30'') (Some ''09:00'') = ''07:30''
   \<and> resolveTimeStr (Some ''07:30'') None = ''07:30''
   \<and> ''09:00'' \<noteq> [] \<and> resolveTimeStr None (Some ''09:00'') = ''09:00''
   \<and> resolveTimeStr None None = ''08:00''"
  using resolveTimeStr_order [of "''07:30''" "Some ''09:00''" "''09:00''"]
    resolveTimeStr_order [of "''07:30''" None "''09:00''"]
  by simp

text \<open>
  Claim C9. A stored value that is present but is the empty string is treated as absent:
  the result is the one for no stored value, that is the configured default, or
  \<open>08:00\<close> when the default is absent or empty too.
\<close>

theorem resolveTimeStr_empty:
  "resolveTimeStr (Some []) dflt = resolveTimeStr None dflt
   \<and> resolveTimeStr (Some []) dflt
       = (case dflt of None \<Rightarrow> ''08:00'' | Some d \<Rightarrow> if d = [] then ''08:00'' else d)"
  by (simp add: resolveTimeStr_def js_or_def js_or_str_def truthy_def split: option.split)

theorem resolveTimeStr_empty_witness:
  "resolveTimeStr (Some '''') (Some ''09:00'') = ''09:00''
   \<and> resolveTimeStr (Some '''') (Some '''') = ''08:00''
   \<and> resolveTimeStr (Some '''') None = ''08:00''"
  using resolveTimeStr_empty [of "Some ''09:00''", THEN conjunct2]
    resolveTimeStr_empty [of "Some ''''", THEN conjunct2]
    resolveTimeStr_empty [of None, THEN conjunct2]
  by simp

end
